theory Spec2Isabelle
  imports Main
begin

section \<open>JavaScript values, objects and the store\<close>

text \<open>
  The adapters of the Kendo UI bridge pass plain JavaScript objects around. An object
  is a map from property names to values; objects that are shared by reference (the
  adapter instance that serves as view model, its \<open>options\<close> literal, the merged options
  object handed to the native constructor) live in a store, a list of objects indexed
  by address, so that a write through one reference is seen through every other one.
\<close>

type_synonym addr = nat

text \<open>A DOM element: an identity and the names of its attributes.\<close>

datatype element = Element (el_id: nat) (el_attributes: "string list")

text \<open>
  \<open>Proxy element event\<close> is the closure built in \<open>getEventOptions\<close>:
  \<^verbatim>\<open>e => { this.taskQueue.queueMicroTask(() => { fireKendoEvent(element, _hyphenate(event), e); }); }\<close>
  It captures the element and the event name.
\<close>

datatype jsval =
    Undefined
  | Null
  | Bool bool
  | Num int
  | Str string
  | Ref addr
  | Arr "jsval list"
  | Proxy element string

type_synonym obj = "string \<rightharpoonup> jsval"

text \<open>JavaScript truthiness, as tested by \<open>if (x)\<close> and \<open>!x\<close>.\<close>

fun truthy :: "jsval \<Rightarrow> bool" where
  "truthy Undefined = False"
| "truthy Null = False"
| "truthy (Bool b) = b"
| "truthy (Num n) = (n \<noteq> 0)"
| "truthy (Str s) = (s \<noteq> [])"
| "truthy (Ref a) = True"
| "truthy (Arr xs) = True"
| "truthy (Proxy el ev) = True"

text \<open>Reading a property: \<open>o[k]\<close> is \<open>undefined\<close> when the object has no such key.\<close>

definition get_prop :: "obj \<Rightarrow> string \<Rightarrow> jsval" where
  "get_prop ob k = (case ob k of Some v \<Rightarrow> v | None \<Rightarrow> Undefined)"

text \<open>The object at an address (a reference always points into the store).\<close>

definition deref :: "obj list \<Rightarrow> addr \<Rightarrow> obj" where
  "deref h a = (if a < length h then h ! a else Map.empty)"

text \<open>Decimal property names of array and string indices.\<close>

definition digit_char :: "nat \<Rightarrow> char" where
  "digit_char d = char_of (of_char CHR ''0'' + d)"

fun string_of_nat :: "nat \<Rightarrow> string" where
  "string_of_nat n =
     (let units = digit_char (n mod 10)
      in if n < 10 then [units] else string_of_nat (n div 10) @ [units])"

definition index_props :: "jsval list \<Rightarrow> obj" where
  "index_props xs = map_of (zip (map string_of_nat [0..<length xs]) xs)"

text \<open>
  The own enumerable properties that \<open>Object.assign\<close> copies from a source:
  those of the object a reference points to, the indices of an array or of a string,
  and none for \<open>undefined\<close>, \<open>null\<close>, booleans, numbers and functions.
\<close>

fun own_props :: "obj list \<Rightarrow> jsval \<Rightarrow> obj" where
  "own_props h (Ref a) = deref h a"
| "own_props h (Arr xs) = index_props xs"
| "own_props h (Str s) = index_props (map (\<lambda>c. Str [c]) s)"
| "own_props h Undefined = Map.empty"
| "own_props h Null = Map.empty"
| "own_props h (Bool b) = Map.empty"
| "own_props h (Num n) = Map.empty"
| "own_props h (Proxy el ev) = Map.empty"

text \<open>
  \<open>Object.assign(target, ...sources)\<close>: the sources are copied into the object at
  the target address one after the other, a later source overwriting an earlier one.
\<close>

definition object_assign :: "obj list \<Rightarrow> addr \<Rightarrow> obj list \<Rightarrow> obj list" where
  "object_assign h target sources = foldl (\<lambda>h' s. h'[target := deref h' target ++ s]) h sources"

section \<open>The native toolkit, the task queue and the world\<close>

text \<open>
  The Kendo widgets are opaque to the bridge. A native widget is recorded with what the
  bridge does to it: the control name, element and options object it was constructed
  with, the \<open>_$parent\<close> property set on it, and the \<open>destroy()\<close> and \<open>enable(v)\<close> calls
  it has received. A widget handle is an index into the table of constructed widgets.
\<close>

record widget =
  w_control :: string
  w_element :: element
  w_options :: obj
  w_parent :: jsval
  destroy_calls :: nat
  enable_calls :: "jsval list"

text \<open>
  A micro task is either the closure queued by an event proxy,
  \<^verbatim>\<open>() => { fireKendoEvent(element, _hyphenate(event), e); }\<close>, or some other task
  already pending on the queue, such as an update of the binding system.
\<close>

datatype task = FireKendoEvent element string jsval | OtherTask nat

datatype effect = DomEvent element string jsval | TaskRan nat

record world =
  heap :: "obj list"
  widgets :: "widget list"
  microTaskQueue :: "task list"
  trace :: "effect list"

datatype error =
    CreateWidgetNeedsObject
  | ElementNotSet
  | ParentCtxNotSet
  | NotAnEvent string "string option"
  | TypeError

text \<open>
  The jQuery plugin call \<^verbatim>\<open>jQuery(element)[controlName](allOptions).data(controlName)\<close>
  constructs the native widget from the options object as it is at that moment and
  yields the widget.
\<close>

definition kendo_init :: "string \<Rightarrow> element \<Rightarrow> obj \<Rightarrow> world \<Rightarrow> nat \<times> world" where
  "kendo_init name el allOptions w =
     (length (widgets w),
      w\<lparr>widgets := widgets w @
         [\<lparr>w_control = name, w_element = el, w_options = allOptions, w_parent = Undefined,
           destroy_calls = 0, enable_calls = []\<rparr>]\<rparr>)"

definition set_widget_parent :: "nat \<Rightarrow> jsval \<Rightarrow> world \<Rightarrow> world" where
  "set_widget_parent wid ctx w =
     w\<lparr>widgets := (widgets w)[wid := (widgets w ! wid)\<lparr>w_parent := ctx\<rparr>]\<rparr>"

definition widget_destroy :: "nat \<Rightarrow> world \<Rightarrow> world" where
  "widget_destroy wid w =
     w\<lparr>widgets := (widgets w)[wid := (widgets w ! wid)\<lparr>destroy_calls := Suc (destroy_calls (widgets w ! wid))\<rparr>]\<rparr>"


text \<open>
  The task queue belongs to the host framework. \<open>queueMicroTask\<close> appends a task to
  the micro task queue; the flush of the queue runs the pending tasks first in, first
  out.
\<close>

definition queueMicroTask :: "task \<Rightarrow> world \<Rightarrow> world" where
  "queueMicroTask t w = w\<lparr>microTaskQueue := microTaskQueue w @ [t]\<rparr>"

section \<open>Helpers of the bridge that the widget base imports\<close>

text \<open>
  \<open>getEventsFromAttributes\<close> and \<open>getBindablePropertyName\<close> come from the module
  \<open>./util\<close>; the widget base only calls them, so they are parameters here: the first
  gives the native event names that the attributes of an element ask for, the second
  gives the name of the bindable property of the wrapper for a native option name.
\<close>

record util =
  getEventsFromAttributes :: "element \<Rightarrow> string list"
  getBindablePropertyName :: "string \<Rightarrow> string"

text \<open>
  Modelled from the spec: \<open>pruneOptions\<close> of the module \<open>./options\<close>. The spec says
  of the merged options that the bindables are "pruned of undefined/null" before the
  merge: the result keeps exactly the entries whose value is neither \<open>undefined\<close> nor
  \<open>null\<close>.
\<close>

definition pruneOptions :: "obj \<Rightarrow> obj" where
  "pruneOptions options =
     (\<lambda>k. case options k of
            None \<Rightarrow> None
          | Some v \<Rightarrow> if v = Undefined \<or> v = Null then None else Some v)"

text \<open>
  Modelled from the spec: \<open>_hyphenate\<close> of the module \<open>./util\<close>. The spec names the
  DOM event by the hyphenated native event name, \<open>data-bound\<close> for \<open>dataBound\<close>: every
  upper case letter is replaced by a hyphen and the lower case letter.
\<close>

definition is_upper :: "char \<Rightarrow> bool" where
  "is_upper c = (65 \<le> (of_char c :: nat) \<and> (of_char c :: nat) \<le> 90)"

definition to_lower :: "char \<Rightarrow> char" where
  "to_lower c = (if is_upper c then char_of ((of_char c :: nat) + 32) else c)"

fun hyphenate :: "string \<Rightarrow> string" where
  "hyphenate [] = []"
| "hyphenate (c # cs) =
     (if is_upper c then CHR ''-'' # to_lower c # hyphenate cs else c # hyphenate cs)"

text \<open>
  Modelled from the spec: \<open>fireKendoEvent\<close> of the module \<open>./events\<close>. The spec has
  the proxy re-dispatch the native event "as a framework-native DOM event" on the host
  element: one DOM event of the given name, carrying the native event, is dispatched.
\<close>

definition fireKendoEvent :: "element \<Rightarrow> string \<Rightarrow> jsval \<Rightarrow> world \<Rightarrow> world" where
  "fireKendoEvent el name e w = w\<lparr>trace := trace w @ [DomEvent el name e]\<rparr>"

fun run_task :: "task \<Rightarrow> world \<Rightarrow> world" where
  "run_task (FireKendoEvent el event e) w = fireKendoEvent el (hyphenate event) e w"
| "run_task (OtherTask n) w = w\<lparr>trace := trace w @ [TaskRan n]\<rparr>"

definition flushMicroTaskQueue :: "world \<Rightarrow> world" where
  "flushMicroTaskQueue w =
     foldl (\<lambda>w' t. run_task t w') (w\<lparr>microTaskQueue := []\<rparr>) (microTaskQueue w)"

section \<open>WidgetBase\<close>

text \<open>
  The fields of a \<open>WidgetBase\<close> that \<open>createWidget\<close> and \<open>destroy\<close> read. They are
  unset on a new widget base: \<open>controlName\<close>, and with it \<open>kendoOptions\<close> and
  \<open>kendoEvents\<close> (the \<open>options\<close> and \<open>events\<close> of the prototype of the control's widget),
  are set by \<open>control\<close>, \<open>viewModel\<close> by \<open>linkViewModel\<close>. The task queue is the one of
  the world.
\<close>

record widget_base =
  controlName :: "string option"
  kendoOptions :: "(string \<times> jsval) list option"
  kendoEvents :: "string list option"
  viewModel :: "addr option"

text \<open>
  \<open>getOptionsFromBindables\<close>: one entry for every key of \<open>kendoOptions\<close>, holding the
  value of the bindable property of the view model (\<open>undefined\<close> when it is not set),
  and \<open>dataSource\<close> when \<open>kDataSource\<close> is truthy. \<open>Object.keys\<close> of an unset
  \<open>kendoOptions\<close> and a property read on an unset view model throw a \<open>TypeError\<close>.
\<close>

definition getOptionsFromBindables :: "util \<Rightarrow> widget_base \<Rightarrow> world \<Rightarrow> error + obj" where
  "getOptionsFromBindables u this w =
     (case kendoOptions this of
        None \<Rightarrow> Inl TypeError
      | Some props \<Rightarrow>
          (case viewModel this of
             None \<Rightarrow> Inl TypeError
           | Some vma \<Rightarrow>
               let vm = deref (heap w) vma;
                   options = foldl (\<lambda>options prop.
                                 options(prop \<mapsto> get_prop vm (getBindablePropertyName u prop)))
                               Map.empty (map fst props);
                   kDataSource = get_prop vm ''kDataSource''
               in Inr (if truthy kDataSource then options(''dataSource'' \<mapsto> kDataSource)
                       else options)))"

text \<open>
  The body of \<open>events.forEach\<close> in \<open>getEventOptions\<close>: an event that the control
  does not have throws, and the loop ends there; otherwise the proxy is stored under
  the event's name.
\<close>

fun register_events ::
  "widget_base \<Rightarrow> element \<Rightarrow> string list \<Rightarrow> obj \<Rightarrow> error + obj" where
  "register_events this el [] options = Inr options"
| "register_events this el (event # events) options =
     (case kendoEvents this of
        None \<Rightarrow> Inl TypeError
      | Some allowedEvents \<Rightarrow>
          if event \<notin> set allowedEvents then Inl (NotAnEvent event (controlName this))
          else register_events this el events (options(event \<mapsto> Proxy el event)))"

definition getEventOptions :: "util \<Rightarrow> widget_base \<Rightarrow> element \<Rightarrow> error + obj" where
  "getEventOptions u this el =
     register_events this el (getEventsFromAttributes u el) Map.empty"

text \<open>
  \<open>_getOptions\<close>: the merge
  \<^verbatim>\<open>Object.assign({}, this.viewModel.options, pruneOptions(options), eventOptions)\<close>
  allocates the fresh target and yields its address.
\<close>

definition WidgetBase_getOptions ::
  "util \<Rightarrow> widget_base \<Rightarrow> element \<Rightarrow> world \<Rightarrow> (error + addr) \<times> world" where
  "WidgetBase_getOptions u this el w =
     (case getOptionsFromBindables u this w of
        Inl e \<Rightarrow> (Inl e, w)
      | Inr options \<Rightarrow>
          (case getEventOptions u this el of
             Inl e \<Rightarrow> (Inl e, w)
           | Inr eventOptions \<Rightarrow>
               (case viewModel this of
                  None \<Rightarrow> (Inl TypeError, w)
                | Some vma \<Rightarrow>
                    let target = length (heap w);
                        h1 = heap w @ [Map.empty];
                        literal = own_props h1 (get_prop (deref h1 vma) ''options'');
                        h2 = object_assign h1 target [literal, pruneOptions options, eventOptions]
                    in (Inr target, w\<lparr>heap := h2\<rparr>))))"

text \<open>
  The argument of \<open>createWidget\<close>. The two hooks are closures of the caller: a hook may
  change anything in the world, and it may throw. \<open>beforeInitialize\<close> is handed the
  merged options object, \<open>afterInitialize\<close> is called without an argument; what a hook
  returns is dropped.
\<close>

record create_options =
  element :: "element option"
  parentCtx :: jsval
  beforeInitialize :: "(addr \<Rightarrow> world \<Rightarrow> (error + unit) \<times> world) option"
  afterInitialize :: "(world \<Rightarrow> (error + unit) \<times> world) option"

text \<open>
  \<^verbatim>\<open>if (options.beforeInitialize) { options.beforeInitialize(allOptions); }\<close> and
  \<^verbatim>\<open>if (options.afterInitialize) { options.afterInitialize(); }\<close>
\<close>

definition call_beforeInitialize ::
  "create_options \<Rightarrow> addr \<Rightarrow> world \<Rightarrow> (error + unit) \<times> world" where
  "call_beforeInitialize opts allOptions w =
     (case beforeInitialize opts of
        None \<Rightarrow> (Inr (), w)
      | Some hook \<Rightarrow> hook allOptions w)"

definition call_afterInitialize :: "create_options \<Rightarrow> world \<Rightarrow> (error + unit) \<times> world" where
  "call_afterInitialize opts w =
     (case afterInitialize opts of
        None \<Rightarrow> (Inr (), w)
      | Some hook \<Rightarrow> hook w)"

text \<open>
  \<open>createWidget\<close>: the three checks, the merged options, the first hook, the
  \<open>_$parent\<close> entry, the construction of the native widget, \<open>_$parent\<close> on the widget,
  the second hook. An error thrown on the way ends the call with the world as it is at
  that point.
\<close>

definition createWidget ::
  "util \<Rightarrow> widget_base \<Rightarrow> create_options option \<Rightarrow> world \<Rightarrow> (error + nat) \<times> world" where
  "createWidget u this options w =
     (case options of
        None \<Rightarrow> (Inl CreateWidgetNeedsObject, w)
      | Some opts \<Rightarrow>
          (case element opts of
             None \<Rightarrow> (Inl ElementNotSet, w)
           | Some el \<Rightarrow>
               if \<not> truthy (parentCtx opts) then (Inl ParentCtxNotSet, w)
               else
                 (case WidgetBase_getOptions u this el w of
                    (Inl e, w1) \<Rightarrow> (Inl e, w1)
                  | (Inr allOptions, w1) \<Rightarrow>
                      (case call_beforeInitialize opts allOptions w1 of
                         (Inl e, w2) \<Rightarrow> (Inl e, w2)
                       | (Inr res, w2) \<Rightarrow>
                           let w3 = w2\<lparr>heap := object_assign (heap w2) allOptions
                                      [[''_$parent'' \<mapsto> Arr [parentCtx opts]]]\<rparr>
                           in (case controlName this of
                                 None \<Rightarrow> (Inl TypeError, w3)
                               | Some name \<Rightarrow>
                                   let (widget, w4) =
                                         kendo_init name el (deref (heap w3) allOptions) w3;
                                       w5 = set_widget_parent widget (parentCtx opts) w4
                                   in (case call_afterInitialize opts w5 of
                                         (Inl e, w6) \<Rightarrow> (Inl e, w6)
                                       | (Inr res, w6) \<Rightarrow> (Inr widget, w6)))))))"

text \<open>\<open>destroy(widget)\<close> calls \<open>widget.destroy()\<close>; on an unset handle that is a \<open>TypeError\<close>.\<close>

definition destroy :: "nat option \<Rightarrow> world \<Rightarrow> (error + unit) \<times> world" where
  "destroy widget w =
     (case widget of
        None \<Rightarrow> (Inl TypeError, w)
      | Some wid \<Rightarrow> (Inr (), widget_destroy wid w))"

text \<open>
  Calling a value as an event handler with the native event \<open>e\<close>: the proxy queues its
  micro task; a value that is not a function cannot be called.
\<close>

fun call_handler :: "jsval \<Rightarrow> jsval \<Rightarrow> world \<Rightarrow> (error + unit) \<times> world" where
  "call_handler (Proxy el event) e w = (Inr (), queueMicroTask (FireKendoEvent el event e) w)"
| "call_handler Undefined e w = (Inl TypeError, w)"
| "call_handler Null e w = (Inl TypeError, w)"
| "call_handler (Bool b) e w = (Inl TypeError, w)"
| "call_handler (Num n) e w = (Inl TypeError, w)"
| "call_handler (Str s) e w = (Inl TypeError, w)"
| "call_handler (Ref a) e w = (Inl TypeError, w)"
| "call_handler (Arr xs) e w = (Inl TypeError, w)"

section \<open>The adapters\<close>

text \<open>
  \<open>TreeMap\<close>, \<open>Tooltip\<close> and \<open>Calendar\<close> hold the same fields: the host element, the
  widget base, the parent context \<open>$parent\<close> (unset until \<open>bind\<close>) and the widget handle
  \<open>kWidget\<close> (unset until \<open>recreate\<close>). The adapter is the view model of its widget base;
  its bindable properties are the object at \<open>viewModel\<close> in the store. The three
  classes have the same \<open>bind\<close>, \<open>attached\<close>, \<open>recreate\<close> and \<open>detached\<close>:
  \<open>recreate\<close> stores in \<open>kWidget\<close> what \<open>createWidget\<close> returns for the element and
  the parent context, \<open>detached\<close> hands \<open>kWidget\<close> to \<open>destroy\<close>.
\<close>

record adapter =
  this_element :: element
  widgetBase :: widget_base
  parent :: jsval
  kWidget :: "nat option"

definition adapter_recreate :: "util \<Rightarrow> adapter \<Rightarrow> world \<Rightarrow> (error + adapter) \<times> world" where
  "adapter_recreate u a w =
     (case createWidget u (widgetBase a)
             (Some \<lparr>element = Some (this_element a), parentCtx = parent a,
                    beforeInitialize = None, afterInitialize = None\<rparr>) w of
        (Inl e, w') \<Rightarrow> (Inl e, w')
      | (Inr widget, w') \<Rightarrow> (Inr (a\<lparr>kWidget := Some widget\<rparr>), w'))"

definition adapter_detached :: "adapter \<Rightarrow> world \<Rightarrow> (error + adapter) \<times> world" where
  "adapter_detached a w =
     (case destroy (kWidget a) w of
        (Inl e, w') \<Rightarrow> (Inl e, w')
      | (Inr res, w') \<Rightarrow> (Inr a, w'))"

definition TreeMap_bind :: "adapter \<Rightarrow> jsval \<Rightarrow> adapter" where
  "TreeMap_bind a ctx = a\<lparr>parent := ctx\<rparr>"

definition TreeMap_recreate :: "util \<Rightarrow> adapter \<Rightarrow> world \<Rightarrow> (error + adapter) \<times> world" where
  "TreeMap_recreate u a w = adapter_recreate u a w"

definition TreeMap_attached :: "util \<Rightarrow> adapter \<Rightarrow> world \<Rightarrow> (error + adapter) \<times> world" where
  "TreeMap_attached u a w = TreeMap_recreate u a w"

definition TreeMap_detached :: "adapter \<Rightarrow> world \<Rightarrow> (error + adapter) \<times> world" where
  "TreeMap_detached a w = adapter_detached a w"

definition Tooltip_bind :: "adapter \<Rightarrow> jsval \<Rightarrow> adapter" where
  "Tooltip_bind a ctx = a\<lparr>parent := ctx\<rparr>"

definition Tooltip_recreate :: "util \<Rightarrow> adapter \<Rightarrow> world \<Rightarrow> (error + adapter) \<times> world" where
  "Tooltip_recreate u a w = adapter_recreate u a w"

definition Tooltip_attached :: "util \<Rightarrow> adapter \<Rightarrow> world \<Rightarrow> (error + adapter) \<times> world" where
  "Tooltip_attached u a w = Tooltip_recreate u a w"

definition Tooltip_detached :: "adapter \<Rightarrow> world \<Rightarrow> (error + adapter) \<times> world" where
  "Tooltip_detached a w = adapter_detached a w"

definition Calendar_bind :: "adapter \<Rightarrow> jsval \<Rightarrow> adapter" where
  "Calendar_bind a ctx = a\<lparr>parent := ctx\<rparr>"

definition Calendar_recreate :: "util \<Rightarrow> adapter \<Rightarrow> world \<Rightarrow> (error + adapter) \<times> world" where
  "Calendar_recreate u a w = adapter_recreate u a w"

definition Calendar_attached :: "util \<Rightarrow> adapter \<Rightarrow> world \<Rightarrow> (error + adapter) \<times> world" where
  "Calendar_attached u a w = Calendar_recreate u a w"

definition Calendar_detached :: "adapter \<Rightarrow> world \<Rightarrow> (error + adapter) \<times> world" where
  "Calendar_detached a w = adapter_detached a w"


text \<open>
  \<open>AuToolbar\<close> keeps its element, its \<open>options\<close> and the handle \<open>_component\<close>, which
  no method of the class ever sets.
\<close>

record au_toolbar =
  au_element :: element
  au_options :: jsval
  component :: "nat option"

definition AuToolbar_attached :: "au_toolbar \<Rightarrow> world \<Rightarrow> (error + au_toolbar) \<times> world" where
  "AuToolbar_attached a w = (Inr a, w)"

definition AuToolbar_detached :: "au_toolbar \<Rightarrow> world \<Rightarrow> (error + au_toolbar) \<times> world" where
  "AuToolbar_detached a w =
     (case component a of
        None \<Rightarrow> (Inr a, w)
      | Some c \<Rightarrow> (Inr a, widget_destroy c w))"


section \<open>Vocabulary for the statements\<close>

text \<open>
  The properties of the options literal of the linked view model, \<open>viewModel.options\<close>,
  as \<open>Object.assign\<close> sees them in \<open>_getOptions\<close>.
\<close>

definition options_literal :: "widget_base \<Rightarrow> world \<Rightarrow> obj" where
  "options_literal this w =
     (case viewModel this of
        None \<Rightarrow> Map.empty
      | Some vma \<Rightarrow> own_props (heap w) (get_prop (deref (heap w) vma) ''options''))"

text \<open>
  The value that the view model holds for the bindable property of a native option.
\<close>

definition bound_value :: "util \<Rightarrow> widget_base \<Rightarrow> world \<Rightarrow> string \<Rightarrow> jsval" where
  "bound_value u this w prop =
     (case viewModel this of
        None \<Rightarrow> Undefined
      | Some vma \<Rightarrow> get_prop (deref (heap w) vma) (getBindablePropertyName u prop))"

text \<open>The value of \<open>kDataSource\<close> on the view model.\<close>

definition kDataSource_value :: "widget_base \<Rightarrow> world \<Rightarrow> jsval" where
  "kDataSource_value this w =
     (case viewModel this of
        None \<Rightarrow> Undefined
      | Some vma \<Rightarrow> get_prop (deref (heap w) vma) ''kDataSource'')"







section \<open>A concrete tooltip\<close>

text \<open>
  The examples run the code on a tooltip. The event names of an element are its
  attribute names that start with \<open>k-on-\<close>, without that prefix; the bindable property
  of an option is named by \<open>k\<close> and the capitalised option name, as \<open>kDataSource\<close> is
  for \<open>dataSource\<close> in \<open>getOptionsFromBindables\<close>.
\<close>

definition ex_bindable_name :: "string \<Rightarrow> string" where
  "ex_bindable_name s =
     (case s of
        [] \<Rightarrow> ''k''
      | c # cs \<Rightarrow>
          CHR ''k'' #
          (if 97 \<le> (of_char c :: nat) \<and> (of_char c :: nat) \<le> 122
           then char_of ((of_char c :: nat) - 32) else c) # cs)"

definition ex_util :: util where
  "ex_util =
     \<lparr>getEventsFromAttributes =
        (\<lambda>el. map (drop 5) (filter (\<lambda>a. take 5 a = ''k-on-'') (el_attributes el))),
      getBindablePropertyName = ex_bindable_name\<rparr>"

definition ex_base :: widget_base where
  "ex_base =
     \<lparr>controlName = Some ''kendoTooltip'',
      kendoOptions = Some [(''position'', Str ''bottom''), (''title'', Null), (''width'', Null)],
      kendoEvents = Some [''contentLoad'', ''show'', ''hide''],
      viewModel = Some 0\<rparr>"

text \<open>An element that subscribes to \<open>show\<close>, and one that asks for an event no tooltip has.\<close>

definition ex_element :: element where
  "ex_element = Element 1 [''class'', ''k-on-show'']"

definition ex_element_bad :: element where
  "ex_element_bad = Element 2 [''k-on-show'', ''k-on-explode'']"

text \<open>
  The store holds the view model at address 0, its options literal at address 1 and
  the parent context at address 2: \<open>kPosition\<close> is bound to \<open>top\<close>, \<open>kWidth\<close> to
  \<open>null\<close>, \<open>kTitle\<close> is not set, and the options literal gives \<open>title\<close>,
  \<open>position\<close> and \<open>show\<close>. One task is pending on the task queue.
\<close>

definition ex_world :: world where
  "ex_world =
     \<lparr>heap = [[''options'' \<mapsto> Ref 1, ''kPosition'' \<mapsto> Str ''top'', ''kWidth'' \<mapsto> Null],
              [''title'' \<mapsto> Str ''Sales'', ''position'' \<mapsto> Str ''left'',
               ''show'' \<mapsto> Bool True],
              [''heading'' \<mapsto> Str ''Report'']],
      widgets = [],
      microTaskQueue = [OtherTask 7],
      trace = []\<rparr>"

definition ex_adapter :: adapter where
  "ex_adapter =
     \<lparr>this_element = ex_element, widgetBase = ex_base, parent = Ref 2, kWidget = None\<rparr>"

definition ex_toolbar :: au_toolbar where
  "ex_toolbar = \<lparr>au_element = ex_element, au_options = Ref 1, component = None\<rparr>"

text \<open>The same world with a data source bound: \<open>kDataSource\<close> is an object.\<close>

definition ex_world_ds :: world where
  "ex_world_ds =
     ex_world\<lparr>heap := (heap ex_world)[0 := (heap ex_world ! 0)(''kDataSource'' \<mapsto> Ref 2)]\<rparr>"




text \<open>The argument the adapters pass, without hooks.\<close>

definition ex_options :: create_options where
  "ex_options =
     \<lparr>element = Some ex_element, parentCtx = Ref 2,
      beforeInitialize = None, afterInitialize = None\<rparr>"

section \<open>Facts about the store and the loops\<close>


lemma object_assign_other: "a \<noteq> t \<Longrightarrow> object_assign h t srcs ! a = h ! a"
  unfolding object_assign_def by (induction srcs arbitrary: h) auto

lemma object_assign_fresh:
  "object_assign (h @ [m]) (length h) srcs = h @ [foldl (++) m srcs]"
  unfolding object_assign_def by (induction srcs arbitrary: m) (auto simp: deref_def)

lemma object_assign_last:
  "a < length h \<Longrightarrow> object_assign h a srcs = h[a := foldl (++) (h ! a) srcs]"
  unfolding object_assign_def by (induction srcs arbitrary: h) (auto simp: deref_def)

lemma deref_append: "deref (h @ [Map.empty]) a = deref h a"
  by (auto simp: deref_def nth_append less_Suc_eq)

lemma own_props_append: "own_props (h @ [Map.empty]) v = own_props h v"
  by (cases v) (simp_all add: deref_append)

lemma foldl_bindables:
  "foldl (\<lambda>options prop. options(prop \<mapsto> f prop)) m ps k =
     (if k \<in> set ps then Some (f k) else m k)"
  by (induction ps arbitrary: m) auto

lemma register_events_ok:
  "kendoEvents this = Some allowed \<Longrightarrow> set evs \<subseteq> set allowed \<Longrightarrow>
   register_events this el evs acc =
     Inr (\<lambda>k. if k \<in> set evs then Some (Proxy el k) else acc k)"
proof (induction evs arbitrary: acc)
  case Nil
  then show ?case by simp
next
  case (Cons ev evs)
  then show ?case by (auto simp: fun_eq_iff)
qed

lemma register_events_fail:
  "kendoEvents this = Some allowed \<Longrightarrow> \<not> set evs \<subseteq> set allowed \<Longrightarrow>
   \<exists>ev. ev \<in> set evs \<and> ev \<notin> set allowed \<and>
     register_events this el evs acc = Inl (NotAnEvent ev (controlName this))"
proof (induction evs arbitrary: acc)
  case Nil
  then show ?case by simp
next
  case (Cons ev evs)
  then show ?case by (cases "ev \<in> set allowed") auto
qed

lemma ex_events [simp]:
  "getEventsFromAttributes ex_util ex_element = [''show'']"
  "getEventsFromAttributes ex_util ex_element_bad = [''show'', ''explode'']"
  by (simp_all add: ex_util_def ex_element_def ex_element_bad_def)

lemma ex_base_fields:
  "controlName ex_base = Some ''kendoTooltip''"
  "kendoOptions ex_base = Some [(''position'', Str ''bottom''), (''title'', Null), (''width'', Null)]"
  "kendoEvents ex_base = Some [''contentLoad'', ''show'', ''hide'']"
  "viewModel ex_base = Some 0"
  by (simp_all add: ex_base_def)

lemma ex_world_fields:
  "length (heap ex_world) = 3" "widgets ex_world = []"
  "microTaskQueue ex_world = [OtherTask 7]" "trace ex_world = []"
  by (simp_all add: ex_world_def)

lemma ex_adapter_fields:
  "this_element ex_adapter = ex_element" "widgetBase ex_adapter = ex_base"
  "parent ex_adapter = Ref 2" "kWidget ex_adapter = None"
  by (simp_all add: ex_adapter_def)

lemma ex_adapter_bound:
  "Tooltip_bind (ex_adapter\<lparr>parent := Undefined\<rparr>) (Ref 2) = ex_adapter"
  by (simp add: Tooltip_bind_def ex_adapter_def)

lemma register_events_Inr:
  "register_events this el evs acc = Inr options \<Longrightarrow>
   options = (\<lambda>k. if k \<in> set evs then Some (Proxy el k) else acc k)"
proof (induction evs arbitrary: acc)
  case Nil
  then show ?case by simp
next
  case (Cons ev evs)
  then show ?case by (auto simp: fun_eq_iff split: option.splits if_splits)
qed

lemma getOptionsFromBindables_total:
  "kendoOptions this = Some props \<Longrightarrow> viewModel this = Some vma \<Longrightarrow>
   \<exists>options. getOptionsFromBindables u this w = Inr options"
  by (simp add: getOptionsFromBindables_def Let_def)

lemma getOptionsFromBindables_value:
  assumes "getOptionsFromBindables u this w = Inr options"
    and "kendoOptions this = Some props"
    and "viewModel this = Some vma"
  shows "options key =
           (if key = ''dataSource'' \<and> truthy (get_prop (deref (heap w) vma) ''kDataSource'')
            then Some (get_prop (deref (heap w) vma) ''kDataSource'')
            else if key \<in> fst ` set props then Some (bound_value u this w key)
            else None)"
proof -
  let ?vm = "deref (heap w) vma"
  let ?collected = "foldl (\<lambda>options prop.
      options(prop \<mapsto> get_prop ?vm (getBindablePropertyName u prop))) Map.empty (map fst props)"
  from assms have "options =
      (if truthy (get_prop ?vm ''kDataSource'')
       then ?collected(''dataSource'' \<mapsto> get_prop ?vm ''kDataSource'') else ?collected)"
    by (simp add: getOptionsFromBindables_def Let_def)
  moreover have "?collected key =
      (if key \<in> fst ` set props then Some (bound_value u this w key) else None)"
    by (simp add: foldl_bindables bound_value_def assms(3))
  ultimately show ?thesis by simp
qed

lemma ex_bindable_names:
  "ex_bindable_name ''position'' = ''kPosition''"
  "ex_bindable_name ''title'' = ''kTitle''"
  "ex_bindable_name ''width'' = ''kWidth''"
  "ex_bindable_name ''dataSource'' = ''kDataSource''"
  by code_simp+

lemma ex_bindables:
  "\<exists>options. getOptionsFromBindables ex_util ex_base ex_world = Inr options \<and>
     options ''position'' = Some (Str ''top'') \<and> options ''title'' = Some Undefined \<and>
     options ''width'' = Some Null \<and> options ''show'' = None"
  by (simp add: getOptionsFromBindables_def ex_util_def ex_base_def ex_world_def deref_def
        get_prop_def ex_bindable_names Let_def)

lemma ex_event_options:
  "getEventOptions ex_util ex_base ex_element =
     Inr (\<lambda>k. if k \<in> set [''show''] then Some (Proxy ex_element k) else None)"
proof -
  have "kendoEvents ex_base = Some [''contentLoad'', ''show'', ''hide'']"
    by (simp add: ex_base_def)
  from register_events_ok[OF this, of "[''show'']"] show ?thesis
    unfolding getEventOptions_def by simp
qed

lemma ex_literal:
  "options_literal ex_base ex_world ''show'' = Some (Bool True)"
  "options_literal ex_base ex_world ''position'' = Some (Str ''left'')"
  "options_literal ex_base ex_world ''title'' = Some (Str ''Sales'')"
  "options_literal ex_base ex_world ''width'' = None"
  by (simp_all add: options_literal_def ex_base_def ex_world_def deref_def get_prop_def)

lemma ex_bound_values:
  "bound_value ex_util ex_base ex_world ''position'' = Str ''top''"
  "bound_value ex_util ex_base ex_world ''title'' = Undefined"
  "bound_value ex_util ex_base ex_world ''width'' = Null"
  by (simp_all add: bound_value_def ex_base_def ex_world_def ex_util_def deref_def
        get_prop_def ex_bindable_names)

section \<open>The merged options\<close>

lemma WidgetBase_getOptions_Inr:
  assumes "WidgetBase_getOptions u this el w = (Inr a, w')"
  shows "\<exists>options eventOptions.
           getOptionsFromBindables u this w = Inr options \<and>
           getEventOptions u this el = Inr eventOptions \<and>
           a = length (heap w) \<and>
           w' = w\<lparr>heap := heap w @
                   [options_literal this w ++ pruneOptions options ++ eventOptions]\<rparr>"
  using assms
  by (auto simp: WidgetBase_getOptions_def options_literal_def Let_def object_assign_fresh
        deref_append own_props_append split: sum.splits option.splits)

lemma WidgetBase_getOptions_Inl:
  "WidgetBase_getOptions u this el w = (Inl e, w') \<Longrightarrow> w' = w"
  by (auto simp: WidgetBase_getOptions_def Let_def split: sum.splits option.splits)

lemma WidgetBase_getOptions_total:
  assumes "getOptionsFromBindables u this w = Inr options"
    and "getEventOptions u this el = Inr eventOptions"
  shows "WidgetBase_getOptions u this el w =
           (Inr (length (heap w)),
            w\<lparr>heap := heap w @
                 [options_literal this w ++ pruneOptions options ++ eventOptions]\<rparr>)"
proof -
  from assms(1) obtain vma where "viewModel this = Some vma"
    by (auto simp: getOptionsFromBindables_def split: option.splits)
  with assms show ?thesis
    by (simp add: WidgetBase_getOptions_def options_literal_def Let_def object_assign_fresh
        deref_append own_props_append)
qed

text \<open>
  Claim C2. In the object that \<open>_getOptions\<close> builds, the source merged later wins on
  every key: an event handler overrides both other sources; a bindable value that is
  neither \<open>undefined\<close> nor \<open>null\<close> overrides the options literal of the view model; the
  options literal shows only where neither the event handlers nor the pruned bindables
  have the key. The bindable values are those collected by \<open>getOptionsFromBindables\<close>:
  for a native option other than \<open>dataSource\<close>, the value of its bound property.
\<close>

theorem getOptions_precedence:
  assumes "WidgetBase_getOptions u this el w = (Inr allOptions, w')"
    and "getOptionsFromBindables u this w = Inr options"
    and "getEventOptions u this el = Inr eventOptions"
  shows "(eventOptions key = Some handler \<longrightarrow>
            deref (heap w') allOptions key = Some handler) \<and>
         (eventOptions key = None \<and> options key = Some v \<and> v \<noteq> Undefined \<and> v \<noteq> Null \<longrightarrow>
            deref (heap w') allOptions key = Some v) \<and>
         (eventOptions key = None \<and> pruneOptions options key = None \<longrightarrow>
            deref (heap w') allOptions key = options_literal this w key) \<and>
         (kendoOptions this = Some props \<and> key \<in> fst ` set props \<and> key \<noteq> ''dataSource'' \<longrightarrow>
            options key = Some (bound_value u this w key))"
proof -
  from WidgetBase_getOptions_Inr[OF assms(1)] assms(2,3)
  have "deref (heap w') allOptions =
          options_literal this w ++ pruneOptions options ++ eventOptions"
    by (auto simp: deref_def)
  then have "(eventOptions key = Some handler \<longrightarrow>
            deref (heap w') allOptions key = Some handler) \<and>
         (eventOptions key = None \<and> options key = Some v \<and> v \<noteq> Undefined \<and> v \<noteq> Null \<longrightarrow>
            deref (heap w') allOptions key = Some v) \<and>
         (eventOptions key = None \<and> pruneOptions options key = None \<longrightarrow>
            deref (heap w') allOptions key = options_literal this w key)"
    by (auto simp: map_add_def pruneOptions_def split: option.splits)
  moreover have "kendoOptions this = Some props \<and> key \<in> fst ` set props \<and>
      key \<noteq> ''dataSource'' \<longrightarrow> options key = Some (bound_value u this w key)"
  proof (intro impI, elim conjE)
    assume p: "kendoOptions this = Some props" and k: "key \<in> fst ` set props"
      and d: "key \<noteq> ''dataSource''"
    from assms(2) obtain vma where "viewModel this = Some vma"
      by (auto simp: getOptionsFromBindables_def split: option.splits)
    from getOptionsFromBindables_value[OF assms(2) p this, of key] k d
    show "options key = Some (bound_value u this w key)" by simp
  qed
  ultimately show ?thesis by blast
qed

theorem getOptions_precedence_witness:
  "fst (WidgetBase_getOptions ex_util ex_base ex_element ex_world) = Inr 3 \<and>
   options_literal ex_base ex_world ''show'' = Some (Bool True) \<and>
   options_literal ex_base ex_world ''position'' = Some (Str ''left'') \<and>
   options_literal ex_base ex_world ''title'' = Some (Str ''Sales'') \<and>
   bound_value ex_util ex_base ex_world ''position'' = Str ''top'' \<and>
   bound_value ex_util ex_base ex_world ''title'' = Undefined \<and>
   deref (heap (snd (WidgetBase_getOptions ex_util ex_base ex_element ex_world))) 3 ''show''
     = Some (Proxy ex_element ''show'') \<and>
   deref (heap (snd (WidgetBase_getOptions ex_util ex_base ex_element ex_world))) 3 ''position''
     = Some (Str ''top'') \<and>
   deref (heap (snd (WidgetBase_getOptions ex_util ex_base ex_element ex_world))) 3 ''title''
     = Some (Str ''Sales'') \<and>
   (\<exists>options. getOptionsFromBindables ex_util ex_base ex_world = Inr options \<and>
      options ''position'' = Some (bound_value ex_util ex_base ex_world ''position''))"
proof -
  obtain options where o: "getOptionsFromBindables ex_util ex_base ex_world = Inr options"
    and op: "options ''position'' = Some (Str ''top'')" "options ''title'' = Some Undefined"
    using ex_bindables by blast
  note e = ex_event_options
  obtain w' where g: "WidgetBase_getOptions ex_util ex_base ex_element ex_world = (Inr 3, w')"
    using WidgetBase_getOptions_total[OF o e] by (simp add: ex_world_def)
  have p: "pruneOptions options ''title'' = None"
    by (simp add: pruneOptions_def op)
  from getOptions_precedence[OF g o e, of "''show''" "Proxy ex_element ''show''"]
  have 1: "deref (heap w') 3 ''show'' = Some (Proxy ex_element ''show'')" by simp
  from getOptions_precedence[OF g o e, of "''position''" _ "Str ''top''"] op
  have 2: "deref (heap w') 3 ''position'' = Some (Str ''top'')" by simp
  from getOptions_precedence[OF g o e, of "''title''"] p ex_literal
  have 3: "deref (heap w') 3 ''title'' = Some (Str ''Sales'')" by simp
  from getOptions_precedence[OF g o e, where key = "''position''"
      and props = "[(''position'', Str ''bottom''), (''title'', Null), (''width'', Null)]"]
  have "options ''position'' = Some (bound_value ex_util ex_base ex_world ''position'')"
    by (simp add: ex_base_fields)
  with o have 4: "\<exists>options. getOptionsFromBindables ex_util ex_base ex_world = Inr options \<and>
      options ''position'' = Some (bound_value ex_util ex_base ex_world ''position'')"
    by blast
  from ex_literal ex_bound_values 1 2 3 have "fst (WidgetBase_getOptions ex_util ex_base ex_element ex_world) = Inr 3 \<and>
   options_literal ex_base ex_world ''show'' = Some (Bool True) \<and>
   options_literal ex_base ex_world ''position'' = Some (Str ''left'') \<and>
   options_literal ex_base ex_world ''title'' = Some (Str ''Sales'') \<and>
   bound_value ex_util ex_base ex_world ''position'' = Str ''top'' \<and>
   bound_value ex_util ex_base ex_world ''title'' = Undefined \<and>
   deref (heap (snd (WidgetBase_getOptions ex_util ex_base ex_element ex_world))) 3 ''show''
     = Some (Proxy ex_element ''show'') \<and>
   deref (heap (snd (WidgetBase_getOptions ex_util ex_base ex_element ex_world))) 3 ''position''
     = Some (Str ''top'') \<and>
   deref (heap (snd (WidgetBase_getOptions ex_util ex_base ex_element ex_world))) 3 ''title''
     = Some (Str ''Sales'')"
    by (simp add: g)
  with 4 show ?thesis by blast
qed

section \<open>Event subscriptions\<close>

text \<open>
  Claim C3. Let the control have an event vocabulary. When every event name derived from
  the attributes of the element is in the vocabulary, \<open>getEventOptions\<close> returns an
  options object whose keys are exactly those event names, each holding the one proxy
  of its event. When some derived event name is not in the vocabulary, the call throws
  the error of such an event and returns no handlers at all.
\<close>

theorem getEventOptions_vocabulary:
  assumes "kendoEvents this = Some allowedEvents"
  shows "(set (getEventsFromAttributes u el) \<subseteq> set allowedEvents \<longrightarrow>
            (\<exists>options. getEventOptions u this el = Inr options \<and>
               dom options = set (getEventsFromAttributes u el) \<and>
               (\<forall>event \<in> set (getEventsFromAttributes u el).
                  options event = Some (Proxy el event)))) \<and>
         (\<not> set (getEventsFromAttributes u el) \<subseteq> set allowedEvents \<longrightarrow>
            (\<exists>event. event \<in> set (getEventsFromAttributes u el) \<and>
               event \<notin> set allowedEvents \<and>
               getEventOptions u this el = Inl (NotAnEvent event (controlName this))))"
proof (intro conjI impI)
  assume sub: "set (getEventsFromAttributes u el) \<subseteq> set allowedEvents"
  let ?options = "\<lambda>k. if k \<in> set (getEventsFromAttributes u el) then Some (Proxy el k) else None"
  have "getEventOptions u this el = Inr ?options"
    unfolding getEventOptions_def using register_events_ok[OF assms sub] by simp
  moreover have "dom ?options = set (getEventsFromAttributes u el)"
    by (auto simp: dom_def)
  ultimately show "\<exists>options. getEventOptions u this el = Inr options \<and>
      dom options = set (getEventsFromAttributes u el) \<and>
      (\<forall>event \<in> set (getEventsFromAttributes u el). options event = Some (Proxy el event))"
    by auto
next
  assume "\<not> set (getEventsFromAttributes u el) \<subseteq> set allowedEvents"
  from register_events_fail[OF assms this]
  show "\<exists>event. event \<in> set (getEventsFromAttributes u el) \<and> event \<notin> set allowedEvents \<and>
      getEventOptions u this el = Inl (NotAnEvent event (controlName this))"
    unfolding getEventOptions_def by blast
qed

theorem getEventOptions_vocabulary_witness:
  "kendoEvents ex_base = Some [''contentLoad'', ''show'', ''hide''] \<and>
   (\<exists>options. getEventOptions ex_util ex_base ex_element = Inr options \<and>
      dom options = {''show''} \<and> options ''show'' = Some (Proxy ex_element ''show'')) \<and>
   getEventOptions ex_util ex_base ex_element_bad =
     Inl (NotAnEvent ''explode'' (Some ''kendoTooltip''))"
proof -
  have k: "kendoEvents ex_base = Some [''contentLoad'', ''show'', ''hide'']"
    by (simp add: ex_base_def)
  have good: "\<exists>options. getEventOptions ex_util ex_base ex_element = Inr options \<and>
      dom options = {''show''} \<and> options ''show'' = Some (Proxy ex_element ''show'')"
    using getEventOptions_vocabulary[OF k, of ex_util ex_element] by simp
  have bad: "getEventOptions ex_util ex_base ex_element_bad =
      Inl (NotAnEvent ''explode'' (Some ''kendoTooltip''))"
    using getEventOptions_vocabulary[OF k, of ex_util ex_element_bad]
    by (auto simp: ex_base_def)
  from k good bad show ?thesis by blast
qed


section \<open>Constructing a widget\<close>

lemma call_hooks_None:
  "beforeInitialize opts = None \<Longrightarrow> call_beforeInitialize opts a w = (Inr (), w)"
  "afterInitialize opts = None \<Longrightarrow> call_afterInitialize opts w = (Inr (), w)"
  by (simp_all add: call_beforeInitialize_def call_afterInitialize_def)


lemma createWidget_run:
  assumes "element opts = Some el" and "truthy (parentCtx opts)"
    and "WidgetBase_getOptions u this el w = (Inr a, w1)"
    and "call_beforeInitialize opts a w1 = (Inr (), w2)"
    and "controlName this = Some name"
  shows "\<exists>w5. heap w5 = object_assign (heap w2) a [[''_$parent'' \<mapsto> Arr [parentCtx opts]]] \<and>
           widgets w5 = widgets w2 @
             [\<lparr>w_control = name, w_element = el, w_options = deref (heap w5) a,
               w_parent = parentCtx opts, destroy_calls = 0, enable_calls = []\<rparr>] \<and>
           microTaskQueue w5 = microTaskQueue w2 \<and> trace w5 = trace w2 \<and>
           createWidget u this (Some opts) w =
             (case call_afterInitialize opts w5 of
                (Inl e, w6) \<Rightarrow> (Inl e, w6)
              | (Inr res, w6) \<Rightarrow> (Inr (length (widgets w2)), w6))"
proof -
  let ?h = "object_assign (heap w2) a [[''_$parent'' \<mapsto> Arr [parentCtx opts]]]"
  let ?w5 = "w2\<lparr>heap := ?h,
      widgets := widgets w2 @
        [\<lparr>w_control = name, w_element = el, w_options = deref ?h a,
          w_parent = parentCtx opts, destroy_calls = 0, enable_calls = []\<rparr>]\<rparr>"
  have "set_widget_parent (length (widgets w2)) (parentCtx opts)
          (snd (kendo_init name el (deref ?h a) (w2\<lparr>heap := ?h\<rparr>))) = ?w5"
    by (simp add: kendo_init_def set_widget_parent_def)
  with assms have "createWidget u this (Some opts) w =
             (case call_afterInitialize opts ?w5 of
                (Inl e, w6) \<Rightarrow> (Inl e, w6)
              | (Inr res, w6) \<Rightarrow> (Inr (length (widgets w2)), w6))"
    by (simp add: createWidget_def Let_def kendo_init_def set_widget_parent_def
          split: prod.splits sum.splits)
  then show ?thesis
    by (intro exI[of _ ?w5]) simp
qed

lemma createWidget_nohooks_Inr:
  assumes "createWidget u this (Some opts) w = (Inr wid, w')"
    and "beforeInitialize opts = None" and "afterInitialize opts = None"
  shows "\<exists>el options eventOptions name.
           element opts = Some el \<and> truthy (parentCtx opts) \<and>
           getOptionsFromBindables u this w = Inr options \<and>
           getEventOptions u this el = Inr eventOptions \<and>
           controlName this = Some name \<and>
           wid = length (widgets w) \<and>
           w' = w\<lparr>heap := heap w @
                     [options_literal this w ++ pruneOptions options ++ eventOptions ++
                        [''_$parent'' \<mapsto> Arr [parentCtx opts]]],
                  widgets := widgets w @
                     [\<lparr>w_control = name, w_element = el,
                       w_options = options_literal this w ++ pruneOptions options ++
                         eventOptions ++ [''_$parent'' \<mapsto> Arr [parentCtx opts]],
                       w_parent = parentCtx opts, destroy_calls = 0, enable_calls = []\<rparr>]\<rparr>"
proof -
  from assms(1) obtain el where el: "element opts = Some el"
    by (auto simp: createWidget_def split: option.splits)
  from assms(1) el have tr: "truthy (parentCtx opts)"
    by (auto simp: createWidget_def split: if_splits)
  from assms(1) el tr obtain a w1 where g: "WidgetBase_getOptions u this el w = (Inr a, w1)"
    by (auto simp: createWidget_def split: prod.splits sum.splits)
  from WidgetBase_getOptions_Inr[OF g] obtain options eventOptions where
    o: "getOptionsFromBindables u this w = Inr options"
    and e: "getEventOptions u this el = Inr eventOptions"
    and a: "a = length (heap w)"
    and w1: "w1 = w\<lparr>heap := heap w @
                   [options_literal this w ++ pruneOptions options ++ eventOptions]\<rparr>"
    by blast
  from assms el tr g obtain name where n: "controlName this = Some name"
    by (auto simp: createWidget_def Let_def call_hooks_None split: option.splits)
  from createWidget_run[OF el tr g call_hooks_None(1)[OF assms(2)] n]
  obtain w5 where h5: "heap w5 = object_assign (heap w1) a [[''_$parent'' \<mapsto> Arr [parentCtx opts]]]"
    and ws5: "widgets w5 = widgets w1 @
             [\<lparr>w_control = name, w_element = el, w_options = deref (heap w5) a,
               w_parent = parentCtx opts, destroy_calls = 0, enable_calls = []\<rparr>]"
    and q5: "microTaskQueue w5 = microTaskQueue w1" and t5: "trace w5 = trace w1"
    and c: "createWidget u this (Some opts) w =
             (case call_afterInitialize opts w5 of
                (Inl e, w6) \<Rightarrow> (Inl e, w6)
              | (Inr res, w6) \<Rightarrow> (Inr (length (widgets w1)), w6))"
    by blast
  from c assms(1) have r: "wid = length (widgets w1)" "w' = w5"
    by (simp_all add: call_hooks_None(2)[OF assms(3)])
  have hh: "heap w5 = heap w @ [options_literal this w ++ pruneOptions options ++ eventOptions ++
                        [''_$parent'' \<mapsto> Arr [parentCtx opts]]]"
    by (simp add: h5 w1 a object_assign_fresh)
  then have d: "deref (heap w5) a = options_literal this w ++ pruneOptions options ++
      eventOptions ++ [''_$parent'' \<mapsto> Arr [parentCtx opts]]"
    by (simp add: a deref_def)
  have "w5 = w\<lparr>heap := heap w5, widgets := widgets w5\<rparr>"
    using q5 t5 by (simp add: w1)
  with r hh ws5 d w1 have
    "wid = length (widgets w) \<and>
     w' = w\<lparr>heap := heap w @
                     [options_literal this w ++ pruneOptions options ++ eventOptions ++
                        [''_$parent'' \<mapsto> Arr [parentCtx opts]]],
                  widgets := widgets w @
                     [\<lparr>w_control = name, w_element = el,
                       w_options = options_literal this w ++ pruneOptions options ++
                         eventOptions ++ [''_$parent'' \<mapsto> Arr [parentCtx opts]],
                       w_parent = parentCtx opts, destroy_calls = 0, enable_calls = []\<rparr>]\<rparr>"
    by simp
  with el tr o e n show ?thesis by blast
qed

lemma createWidget_nohooks_total:
  assumes "element opts = Some el" and "truthy (parentCtx opts)"
    and "getOptionsFromBindables u this w = Inr options"
    and "getEventOptions u this el = Inr eventOptions"
    and "controlName this = Some name"
    and "beforeInitialize opts = None" and "afterInitialize opts = None"
  shows "createWidget u this (Some opts) w =
           (Inr (length (widgets w)),
            w\<lparr>heap := heap w @
                 [options_literal this w ++ pruneOptions options ++ eventOptions ++
                    [''_$parent'' \<mapsto> Arr [parentCtx opts]]],
              widgets := widgets w @
                 [\<lparr>w_control = name, w_element = el,
                   w_options = options_literal this w ++ pruneOptions options ++
                     eventOptions ++ [''_$parent'' \<mapsto> Arr [parentCtx opts]],
                   w_parent = parentCtx opts, destroy_calls = 0, enable_calls = []\<rparr>]\<rparr>)"
proof -
  obtain wid w' where c: "createWidget u this (Some opts) w = (Inr wid, w')"
    using assms WidgetBase_getOptions_total[OF assms(3,4)]
    by (simp add: createWidget_def Let_def kendo_init_def call_hooks_None)
  from createWidget_nohooks_Inr[OF c assms(6,7)] assms(1,3,4,5) c show ?thesis
    by auto
qed

lemma createWidget_nohooks_Inl:
  assumes "createWidget u this (Some opts) w = (Inl e, w')"
    and "beforeInitialize opts = None" and "afterInitialize opts = None"
  shows "widgets w' = widgets w \<and> microTaskQueue w' = microTaskQueue w \<and> trace w' = trace w
         \<and> (heap w' = heap w \<or> (\<exists>m. heap w' = heap w @ [m]))"
proof (cases "WidgetBase_getOptions u this (the (element opts)) w")
  case (Pair r w1)
  show ?thesis
  proof (cases r)
    case (Inl e1)
    with Pair have "w1 = w" by (simp add: WidgetBase_getOptions_Inl)
    with assms Pair Inl show ?thesis
      by (auto simp: createWidget_def split: option.splits if_splits)
  next
    case (Inr a)
    with Pair WidgetBase_getOptions_Inr[of u this "the (element opts)" w a w1]
    obtain m where "a = length (heap w)" "w1 = w\<lparr>heap := heap w @ [m]\<rparr>" by blast
    with assms Pair Inr show ?thesis
      by (auto simp: createWidget_def Let_def kendo_init_def object_assign_fresh call_hooks_None
            split: option.splits if_splits)
  qed
qed

lemma createWidget_event_error:
  assumes "element opts = Some el" and "truthy (parentCtx opts)"
    and "getOptionsFromBindables u this w = Inr options"
    and "getEventOptions u this el = Inl e"
  shows "createWidget u this (Some opts) w = (Inl e, w)"
  using assms by (simp add: createWidget_def WidgetBase_getOptions_def)

lemma ex_options_fields:
  "element ex_options = Some ex_element" "parentCtx ex_options = Ref 2"
  "beforeInitialize ex_options = None" "afterInitialize ex_options = None"
  by (simp_all add: ex_options_def)

lemma ex_createWidget_bad:
  "createWidget ex_util ex_base (Some (ex_options\<lparr>element := Some ex_element_bad\<rparr>)) ex_world
   = (Inl (NotAnEvent ''explode'' (Some ''kendoTooltip'')), ex_world)"
proof -
  obtain options where o: "getOptionsFromBindables ex_util ex_base ex_world = Inr options"
    using ex_bindables by blast
  have e: "getEventOptions ex_util ex_base ex_element_bad =
      Inl (NotAnEvent ''explode'' (Some ''kendoTooltip''))"
    by (simp add: getEventOptions_def ex_base_fields)
  show ?thesis
    by (rule createWidget_event_error[OF _ _ o e]) (simp_all add: ex_options_fields)
qed












lemma ex_vm_options: "get_prop (deref (heap ex_world) 0) ''options'' = Ref 1"
  by (simp add: ex_world_def deref_def get_prop_def)






section \<open>Attaching an adapter\<close>

lemma attached_defs:
  "TreeMap_attached = adapter_recreate" "Tooltip_attached = adapter_recreate"
  "Calendar_attached = adapter_recreate"
  by (simp_all add: fun_eq_iff TreeMap_attached_def TreeMap_recreate_def Tooltip_attached_def
        Tooltip_recreate_def Calendar_attached_def Calendar_recreate_def)

lemma detached_defs:
  "TreeMap_detached = adapter_detached" "Tooltip_detached = adapter_detached"
  "Calendar_detached = adapter_detached"
  by (simp_all add: fun_eq_iff TreeMap_detached_def Tooltip_detached_def Calendar_detached_def)

lemma adapter_recreate_Inr:
  assumes "adapter_recreate u a w = (Inr a', w')"
  shows "\<exists>options eventOptions name.
           truthy (parent a) \<and>
           getOptionsFromBindables u (widgetBase a) w = Inr options \<and>
           getEventOptions u (widgetBase a) (this_element a) = Inr eventOptions \<and>
           controlName (widgetBase a) = Some name \<and>
           a' = a\<lparr>kWidget := Some (length (widgets w))\<rparr> \<and>
           w' = w\<lparr>heap := heap w @
                     [options_literal (widgetBase a) w ++ pruneOptions options ++ eventOptions
                        ++ [''_$parent'' \<mapsto> Arr [parent a]]],
                  widgets := widgets w @
                     [\<lparr>w_control = name, w_element = this_element a,
                       w_options = options_literal (widgetBase a) w ++ pruneOptions options
                         ++ eventOptions ++ [''_$parent'' \<mapsto> Arr [parent a]],
                       w_parent = parent a, destroy_calls = 0, enable_calls = []\<rparr>]\<rparr>"
proof -
  let ?opts = "\<lparr>element = Some (this_element a), parentCtx = parent a,
                beforeInitialize = None, afterInitialize = None\<rparr>"
  from assms obtain wid where c: "createWidget u (widgetBase a) (Some ?opts) w = (Inr wid, w')"
    and a': "a' = a\<lparr>kWidget := Some wid\<rparr>"
    by (auto simp: adapter_recreate_def split: prod.splits sum.splits)
  have "beforeInitialize ?opts = None" "afterInitialize ?opts = None" by simp_all
  from createWidget_nohooks_Inr[OF c this] a' show ?thesis
    by auto
qed

lemma adapter_recreate_Inl:
  assumes "adapter_recreate u a w = (Inl e, w')"
  shows "widgets w' = widgets w"
proof -
  let ?opts = "\<lparr>element = Some (this_element a), parentCtx = parent a,
                beforeInitialize = None, afterInitialize = None\<rparr>"
  from assms have c: "createWidget u (widgetBase a) (Some ?opts) w = (Inl e, w')"
    by (auto simp: adapter_recreate_def split: prod.splits sum.splits)
  have "beforeInitialize ?opts = None" "afterInitialize ?opts = None" by simp_all
  from createWidget_nohooks_Inl[OF c this] show ?thesis by simp
qed

lemma adapter_recreate_total:
  assumes "truthy (parent a)"
    and "getOptionsFromBindables u (widgetBase a) w = Inr options"
    and "getEventOptions u (widgetBase a) (this_element a) = Inr eventOptions"
    and "controlName (widgetBase a) = Some name"
  shows "\<exists>w'. adapter_recreate u a w = (Inr (a\<lparr>kWidget := Some (length (widgets w))\<rparr>), w')"
proof -
  let ?opts = "\<lparr>element = Some (this_element a), parentCtx = parent a,
                beforeInitialize = None, afterInitialize = None\<rparr>"
  have "element ?opts = Some (this_element a)" "truthy (parentCtx ?opts)"
    "beforeInitialize ?opts = None" "afterInitialize ?opts = None"
    using assms(1) by simp_all
  from createWidget_nohooks_total[OF this(1,2) assms(2,3,4) this(3,4)] show ?thesis
    by (simp add: adapter_recreate_def)
qed

lemma dom_pruneOptions:
  "dom (pruneOptions options) = {k. \<exists>v. options k = Some v \<and> v \<noteq> Undefined \<and> v \<noteq> Null}"
  by (auto simp: pruneOptions_def dom_def split: option.splits if_splits)

lemma dom_getEventOptions:
  "getEventOptions u this el = Inr eventOptions \<Longrightarrow>
   dom eventOptions = set (getEventsFromAttributes u el)"
  unfolding getEventOptions_def by (drule register_events_Inr) (auto simp: dom_def)

lemma truthy_defined: "truthy v \<Longrightarrow> v \<noteq> Undefined \<and> v \<noteq> Null"
  by (cases v) simp_all

lemma ex_attached:
  "\<exists>options w'.
     getOptionsFromBindables ex_util ex_base ex_world = Inr options \<and>
     adapter_recreate ex_util ex_adapter ex_world = (Inr (ex_adapter\<lparr>kWidget := Some 0\<rparr>), w') \<and>
     length (widgets w') = 1 \<and>
     w_options (widgets w' ! 0) =
       options_literal ex_base ex_world ++ pruneOptions options ++
       (\<lambda>k. if k \<in> set [''show''] then Some (Proxy ex_element k) else None) ++
       [''_$parent'' \<mapsto> Arr [Ref 2]]"
proof -
  obtain options where o: "getOptionsFromBindables ex_util ex_base ex_world = Inr options"
    using ex_bindables by blast
  let ?opts = "\<lparr>element = Some ex_element, parentCtx = Ref 2,
                beforeInitialize = None, afterInitialize = None\<rparr>"
  have "element ?opts = Some ex_element" "truthy (parentCtx ?opts)"
    "controlName ex_base = Some ''kendoTooltip''"
    "beforeInitialize ?opts = None" "afterInitialize ?opts = None"
    by (simp_all add: ex_base_fields)
  from createWidget_nohooks_total[OF this(1,2) o ex_event_options this(3,4,5)] o show ?thesis
    by (simp add: adapter_recreate_def ex_adapter_fields ex_world_fields)
qed

lemma ex_ds:
  "kDataSource_value ex_base ex_world = Undefined"
  "kDataSource_value ex_base ex_world_ds = Ref 2"
  "widgets ex_world_ds = []"
  by (simp_all add: kDataSource_value_def ex_base_fields ex_world_ds_def ex_world_def
        deref_def get_prop_def)

lemma ex_attached_ds:
  "\<exists>w'. adapter_recreate ex_util ex_adapter ex_world_ds =
      (Inr (ex_adapter\<lparr>kWidget := Some 0\<rparr>), w')"
proof -
  from getOptionsFromBindables_total[OF ex_base_fields(2,4)]
  obtain options where "getOptionsFromBindables ex_util ex_base ex_world_ds = Inr options"
    by blast
  from adapter_recreate_total[of ex_adapter ex_util ex_world_ds options _ "''kendoTooltip''"]
    this ex_event_options
  show ?thesis by (simp add: ex_adapter_fields ex_base_fields ex_ds)
qed

lemma ex_createWidget_bad_literal:
  "createWidget ex_util ex_base
     (Some \<lparr>element = Some ex_element_bad, parentCtx = Ref 2,
            beforeInitialize = None, afterInitialize = None\<rparr>) ex_world
   = (Inl (NotAnEvent ''explode'' (Some ''kendoTooltip'')), ex_world)"
  using ex_createWidget_bad by (simp add: ex_options_def)

text \<open>
  Claim C1, as amended. When \<open>attached\<close> of \<open>TreeMap\<close>, \<open>Tooltip\<close> or \<open>Calendar\<close>
  returns, exactly one widget has been constructed, and the options object it was
  constructed with has a key for every native option whose bound property holds a value
  other than \<open>undefined\<close> and \<open>null\<close>. Whenever the view model's \<open>kDataSource\<close> is
  truthy, the object has the key \<open>dataSource\<close>, whether or not \<open>dataSource\<close> is a native
  option of the control and whatever the bindable property of \<open>dataSource\<close> is called;
  its value is \<open>kDataSource\<close> unless an event handler is registered under that name. For
  a native option whose bound property is \<open>undefined\<close> or \<open>null\<close> (and which is not
  \<open>dataSource\<close> with a truthy \<open>kDataSource\<close>), the object has the key exactly when the
  options literal of the view model has it, an event handler is registered under that
  name, or it is \<open>_$parent\<close>. When \<open>kDataSource\<close> is not truthy and \<open>dataSource\<close> is no
  native option, the object has the key \<open>dataSource\<close> exactly when the options literal
  has it or an event handler is registered under that name.
\<close>

theorem attach_options_keys:
  assumes "attached \<in> {TreeMap_attached, Tooltip_attached, Calendar_attached}"
    and "attached u a w = (Inr a', w')"
    and "kendoOptions (widgetBase a) = Some props"
  shows "kWidget a' = Some (length (widgets w)) \<and>
         length (widgets w') = Suc (length (widgets w)) \<and>
         (prop \<in> fst ` set props \<and>
          bound_value u (widgetBase a) w prop \<noteq> Undefined \<and>
          bound_value u (widgetBase a) w prop \<noteq> Null \<longrightarrow>
            prop \<in> dom (w_options (widgets w' ! length (widgets w)))) \<and>
         (truthy (kDataSource_value (widgetBase a) w) \<longrightarrow>
            ''dataSource'' \<in> dom (w_options (widgets w' ! length (widgets w))) \<and>
            (''dataSource'' \<notin> set (getEventsFromAttributes u (this_element a)) \<longrightarrow>
               w_options (widgets w' ! length (widgets w)) ''dataSource'' =
                 Some (kDataSource_value (widgetBase a) w))) \<and>
         (prop \<in> fst ` set props \<and>
          (bound_value u (widgetBase a) w prop = Undefined \<or>
           bound_value u (widgetBase a) w prop = Null) \<and>
          \<not> (prop = ''dataSource'' \<and> truthy (kDataSource_value (widgetBase a) w)) \<longrightarrow>
            (prop \<in> dom (w_options (widgets w' ! length (widgets w))) \<longleftrightarrow>
               prop \<in> dom (options_literal (widgetBase a) w) \<or>
               prop \<in> set (getEventsFromAttributes u (this_element a)) \<or>
               prop = ''_$parent'')) \<and>
         (\<not> truthy (kDataSource_value (widgetBase a) w) \<and> ''dataSource'' \<notin> fst ` set props \<longrightarrow>
            (''dataSource'' \<in> dom (w_options (widgets w' ! length (widgets w))) \<longleftrightarrow>
               ''dataSource'' \<in> dom (options_literal (widgetBase a) w) \<or>
               ''dataSource'' \<in> set (getEventsFromAttributes u (this_element a))))"
proof -
  let ?wb = "widgetBase a"
  let ?events = "set (getEventsFromAttributes u (this_element a))"
  let ?kds = "kDataSource_value ?wb w"
  from assms(1,2) have r: "adapter_recreate u a w = (Inr a', w')"
    by (auto simp: attached_defs)
  from adapter_recreate_Inr[OF r] obtain options eventOptions name where
    o: "getOptionsFromBindables u ?wb w = Inr options"
    and e: "getEventOptions u ?wb (this_element a) = Inr eventOptions"
    and a': "a' = a\<lparr>kWidget := Some (length (widgets w))\<rparr>"
    and w': "w' = w\<lparr>heap := heap w @
                     [options_literal ?wb w ++ pruneOptions options ++ eventOptions
                        ++ [''_$parent'' \<mapsto> Arr [parent a]]],
                  widgets := widgets w @
                     [\<lparr>w_control = name, w_element = this_element a,
                       w_options = options_literal ?wb w ++ pruneOptions options
                         ++ eventOptions ++ [''_$parent'' \<mapsto> Arr [parent a]],
                       w_parent = parent a, destroy_calls = 0, enable_calls = []\<rparr>]\<rparr>"
    by blast
  let ?O = "w_options (widgets w' ! length (widgets w))"
  from o obtain vma where vm: "viewModel ?wb = Some vma"
    by (auto simp: getOptionsFromBindables_def split: option.splits)
  have kds: "?kds = get_prop (deref (heap w) vma) ''kDataSource''"
    by (simp add: kDataSource_value_def vm)
  have v: "\<And>key. options key =
      (if key = ''dataSource'' \<and> truthy ?kds then Some ?kds
       else if key \<in> fst ` set props then Some (bound_value u ?wb w key) else None)"
    using getOptionsFromBindables_value[OF o assms(3) vm] by (simp add: kds)
  have O: "?O = options_literal ?wb w ++ pruneOptions options ++ eventOptions
      ++ [''_$parent'' \<mapsto> Arr [parent a]]"
    by (simp add: w')
  have d: "dom ?O = dom (options_literal ?wb w) \<union>
      {k. \<exists>x. options k = Some x \<and> x \<noteq> Undefined \<and> x \<noteq> Null} \<union> ?events \<union> {''_$parent''}"
    by (auto simp: O dom_pruneOptions dom_getEventOptions[OF e])
  have 1: "kWidget a' = Some (length (widgets w))" by (simp add: a')
  have 2: "length (widgets w') = Suc (length (widgets w))" by (simp add: w')
  have 3: "prop \<in> fst ` set props \<and> bound_value u ?wb w prop \<noteq> Undefined \<and>
      bound_value u ?wb w prop \<noteq> Null \<longrightarrow> prop \<in> dom ?O"
    using truthy_defined[of ?kds] by (auto simp: d v)
  have 4: "truthy ?kds \<longrightarrow> ''dataSource'' \<in> dom ?O \<and>
      (''dataSource'' \<notin> ?events \<longrightarrow> ?O ''dataSource'' = Some ?kds)"
  proof
    assume t: "truthy ?kds"
    with v[of "''dataSource''"] have od: "options ''dataSource'' = Some ?kds" by simp
    from t truthy_defined[of ?kds] have df: "?kds \<noteq> Undefined" "?kds \<noteq> Null" by simp_all
    from od df have "''dataSource'' \<in> dom ?O" by (simp add: d)
    moreover have "''dataSource'' \<notin> ?events \<longrightarrow> ?O ''dataSource'' = Some ?kds"
    proof
      assume "''dataSource'' \<notin> ?events"
      with dom_getEventOptions[OF e] have "eventOptions ''dataSource'' = None"
        by (auto simp: dom_def)
      with od df show "?O ''dataSource'' = Some ?kds"
        by (simp add: O map_add_def pruneOptions_def)
    qed
    ultimately show "''dataSource'' \<in> dom ?O \<and>
      (''dataSource'' \<notin> ?events \<longrightarrow> ?O ''dataSource'' = Some ?kds)" by blast
  qed
  have 5: "prop \<in> fst ` set props \<and>
      (bound_value u ?wb w prop = Undefined \<or> bound_value u ?wb w prop = Null) \<and>
      \<not> (prop = ''dataSource'' \<and> truthy ?kds) \<longrightarrow>
      (prop \<in> dom ?O \<longleftrightarrow> prop \<in> dom (options_literal ?wb w) \<or> prop \<in> ?events \<or>
         prop = ''_$parent'')"
    by (auto simp: d v)
  have 6: "\<not> truthy ?kds \<and> ''dataSource'' \<notin> fst ` set props \<longrightarrow>
      (''dataSource'' \<in> dom ?O \<longleftrightarrow> ''dataSource'' \<in> dom (options_literal ?wb w) \<or>
         ''dataSource'' \<in> ?events)"
    by (auto simp: d v)
  from 1 2 3 4 5 6 show ?thesis by blast
qed

text \<open>
  On the tooltip: \<open>position\<close> is bound and is a key; \<open>width\<close> is bound to \<open>null\<close> and
  given by no other source, and is no key; without \<open>kDataSource\<close> there is no key
  \<open>dataSource\<close>. With \<open>kDataSource\<close> set on the view model, the widget is constructed
  with \<open>dataSource\<close> holding it, although \<open>dataSource\<close> is no native option of the tooltip.
\<close>

theorem attach_options_keys_witness:
  "fst (Tooltip_attached ex_util ex_adapter ex_world) = Inr (ex_adapter\<lparr>kWidget := Some 0\<rparr>) \<and>
   bound_value ex_util ex_base ex_world ''position'' = Str ''top'' \<and>
   bound_value ex_util ex_base ex_world ''width'' = Null \<and>
   kDataSource_value ex_base ex_world = Undefined \<and>
   ''position'' \<in> dom (w_options (widgets (snd (Tooltip_attached ex_util ex_adapter ex_world)) ! 0)) \<and>
   ''width'' \<notin> dom (w_options (widgets (snd (Tooltip_attached ex_util ex_adapter ex_world)) ! 0)) \<and>
   ''dataSource'' \<notin>
     dom (w_options (widgets (snd (Tooltip_attached ex_util ex_adapter ex_world)) ! 0)) \<and>
   fst (Tooltip_attached ex_util ex_adapter ex_world_ds) = Inr (ex_adapter\<lparr>kWidget := Some 0\<rparr>) \<and>
   kDataSource_value ex_base ex_world_ds = Ref 2 \<and>
   w_options (widgets (snd (Tooltip_attached ex_util ex_adapter ex_world_ds)) ! 0) ''dataSource''
     = Some (Ref 2)"
proof -
  let ?props = "[(''position'', Str ''bottom''), (''title'', Null), (''width'', Null)]"
  from ex_attached obtain w' where
    r: "Tooltip_attached ex_util ex_adapter ex_world = (Inr (ex_adapter\<lparr>kWidget := Some 0\<rparr>), w')"
    by (auto simp: attached_defs)
  from ex_attached_ds obtain wd where
    rd: "Tooltip_attached ex_util ex_adapter ex_world_ds =
      (Inr (ex_adapter\<lparr>kWidget := Some 0\<rparr>), wd)"
    by (auto simp: attached_defs)
  have m: "Tooltip_attached \<in> {TreeMap_attached, Tooltip_attached, Calendar_attached}" by simp
  have k: "kendoOptions (widgetBase ex_adapter) = Some ?props"
    by (simp add: ex_adapter_fields ex_base_fields)
  have w0: "length (widgets ex_world) = 0" by (simp add: ex_world_fields)
  have ev: "getEventsFromAttributes ex_util (this_element ex_adapter) = [''show'']"
    by (simp add: ex_adapter_fields)
  have lit: "options_literal ex_base ex_world ''dataSource'' = None"
    by (simp add: options_literal_def ex_base_fields ex_vm_options)
       (simp add: ex_world_def deref_def)
  from attach_options_keys[OF m r k, of "''position''"]
  have 1: "''position'' \<in> dom (w_options (widgets w' ! 0))"
    by (simp add: ex_adapter_fields ex_bound_values w0)
  from attach_options_keys[OF m r k, of "''width''"]
  have 2: "''width'' \<notin> dom (w_options (widgets w' ! 0))"
    by (simp add: ex_adapter_fields ex_bound_values w0 ev domIff ex_literal ex_ds)
  from attach_options_keys[OF m r k, of "''width''"]
  have 3: "''dataSource'' \<notin> dom (w_options (widgets w' ! 0))"
    by (simp add: ex_adapter_fields ex_bound_values w0 ev domIff lit ex_ds)
  from attach_options_keys[OF m rd k, of "''width''"]
  have 4: "w_options (widgets wd ! 0) ''dataSource'' = Some (Ref 2)"
    by (simp add: ex_adapter_fields ex_ds ev)
  from 1 2 3 4 show ?thesis by (simp add: r rd ex_bound_values ex_ds)
qed

text \<open>
  Claim C1 as stated fails: the bound property of \<open>title\<close> is \<open>undefined\<close>, yet the
  options object passed to the constructor has the key \<open>title\<close>, from the options
  literal of the view model.
\<close>

theorem attach_options_keys_counterexample:
  "kendoOptions ex_base = Some [(''position'', Str ''bottom''), (''title'', Null), (''width'', Null)] \<and>
   bound_value ex_util ex_base ex_world ''title'' = Undefined \<and>
   fst (Tooltip_attached ex_util ex_adapter ex_world) = Inr (ex_adapter\<lparr>kWidget := Some 0\<rparr>) \<and>
   w_options (widgets (snd (Tooltip_attached ex_util ex_adapter ex_world)) ! 0) ''title''
     = Some (Str ''Sales'')"
proof -
  from ex_attached obtain options w' where
    o: "getOptionsFromBindables ex_util ex_base ex_world = Inr options"
    and r: "adapter_recreate ex_util ex_adapter ex_world = (Inr (ex_adapter\<lparr>kWidget := Some 0\<rparr>), w')"
    and m: "w_options (widgets w' ! 0) =
       options_literal ex_base ex_world ++ pruneOptions options ++
       (\<lambda>k. if k \<in> set [''show''] then Some (Proxy ex_element k) else None) ++
       [''_$parent'' \<mapsto> Arr [Ref 2]]"
    by blast
  from o ex_bindables have t: "options ''title'' = Some Undefined" by auto
  have "w_options (widgets w' ! 0) ''title'' = Some (Str ''Sales'')"
    by (simp add: m map_add_def pruneOptions_def t ex_literal)
  with r show ?thesis
    by (simp add: attached_defs ex_bound_values ex_base_fields)
qed

text \<open>
  Claim C6, as amended. \<open>attached\<close> of \<open>TreeMap\<close>, \<open>Tooltip\<close> and \<open>Calendar\<close> is one
  call of \<open>createWidget\<close> with the adapter's element and parent context and no hooks.
  When it returns, exactly one native widget has been constructed, on the adapter's
  element and for the selected control, and the adapter holds its handle; when it
  throws, none has been constructed. \<open>AuToolbar.attached\<close> does nothing.
\<close>

theorem attached_constructs_once:
  assumes "attached \<in> {TreeMap_attached, Tooltip_attached, Calendar_attached}"
    and "attached u a w = (r, w')"
  shows "(r, w') =
           (case createWidget u (widgetBase a)
                   (Some \<lparr>element = Some (this_element a), parentCtx = parent a,
                          beforeInitialize = None, afterInitialize = None\<rparr>) w of
              (Inl e, w1) \<Rightarrow> (Inl e, w1)
            | (Inr widget, w1) \<Rightarrow> (Inr (a\<lparr>kWidget := Some widget\<rparr>), w1)) \<and>
         (r = Inr a' \<longrightarrow>
            a' = a\<lparr>kWidget := Some (length (widgets w))\<rparr> \<and>
            length (widgets w') = Suc (length (widgets w)) \<and>
            take (length (widgets w)) (widgets w') = widgets w \<and>
            w_element (widgets w' ! length (widgets w)) = this_element a \<and>
            controlName (widgetBase a) = Some (w_control (widgets w' ! length (widgets w)))) \<and>
         (r = Inl e \<longrightarrow> widgets w' = widgets w) \<and>
         AuToolbar_attached t w = (Inr t, w)"
proof -
  from assms have r: "adapter_recreate u a w = (r, w')"
    by (auto simp: attached_defs)
  then have 1: "(r, w') =
           (case createWidget u (widgetBase a)
                   (Some \<lparr>element = Some (this_element a), parentCtx = parent a,
                          beforeInitialize = None, afterInitialize = None\<rparr>) w of
              (Inl e, w1) \<Rightarrow> (Inl e, w1)
            | (Inr widget, w1) \<Rightarrow> (Inr (a\<lparr>kWidget := Some widget\<rparr>), w1))"
    by (simp add: adapter_recreate_def)
  have 2: "r = Inr a' \<longrightarrow>
            a' = a\<lparr>kWidget := Some (length (widgets w))\<rparr> \<and>
            length (widgets w') = Suc (length (widgets w)) \<and>
            take (length (widgets w)) (widgets w') = widgets w \<and>
            w_element (widgets w' ! length (widgets w)) = this_element a \<and>
            controlName (widgetBase a) = Some (w_control (widgets w' ! length (widgets w)))"
  proof
    assume "r = Inr a'"
    with r have "adapter_recreate u a w = (Inr a', w')" by simp
    from adapter_recreate_Inr[OF this] show "a' = a\<lparr>kWidget := Some (length (widgets w))\<rparr> \<and>
            length (widgets w') = Suc (length (widgets w)) \<and>
            take (length (widgets w)) (widgets w') = widgets w \<and>
            w_element (widgets w' ! length (widgets w)) = this_element a \<and>
            controlName (widgetBase a) = Some (w_control (widgets w' ! length (widgets w)))"
      by auto
  qed
  have 3: "r = Inl e \<longrightarrow> widgets w' = widgets w"
    using r adapter_recreate_Inl[of u a w e w'] by simp
  have 4: "AuToolbar_attached t w = (Inr t, w)"
    by (simp add: AuToolbar_attached_def)
  from 1 2 3 4 show ?thesis by blast
qed


text \<open>
  The calendar adapter on the example element constructs one widget; the tree map
  adapter on the element with the unknown event throws and constructs none.
\<close>

theorem attached_constructs_once_witness:
  "fst (Calendar_attached ex_util ex_adapter ex_world) = Inr (ex_adapter\<lparr>kWidget := Some 0\<rparr>) \<and>
   length (widgets (snd (Calendar_attached ex_util ex_adapter ex_world))) = 1 \<and>
   w_element (widgets (snd (Calendar_attached ex_util ex_adapter ex_world)) ! 0) = ex_element \<and>
   fst (TreeMap_attached ex_util (ex_adapter\<lparr>this_element := ex_element_bad\<rparr>) ex_world)
     = Inl (NotAnEvent ''explode'' (Some ''kendoTooltip'')) \<and>
   widgets (snd (TreeMap_attached ex_util (ex_adapter\<lparr>this_element := ex_element_bad\<rparr>) ex_world))
     = []"
proof -
  from ex_attached obtain w' where
    r: "Calendar_attached ex_util ex_adapter ex_world = (Inr (ex_adapter\<lparr>kWidget := Some 0\<rparr>), w')"
    by (auto simp: attached_defs)
  have m: "Calendar_attached \<in> {TreeMap_attached, Tooltip_attached, Calendar_attached}" by simp
  from attached_constructs_once[OF m r, where a' = "ex_adapter\<lparr>kWidget := Some 0\<rparr>"]
  have 1: "length (widgets w') = 1 \<and> w_element (widgets w' ! 0) = ex_element"
    by (simp add: ex_world_fields ex_adapter_fields)
  let ?bad = "ex_adapter\<lparr>this_element := ex_element_bad\<rparr>"
  have b: "TreeMap_attached ex_util ?bad ex_world =
      (Inl (NotAnEvent ''explode'' (Some ''kendoTooltip'')), ex_world)"
    by (simp add: attached_defs adapter_recreate_def ex_adapter_fields ex_createWidget_bad_literal)
  have m': "TreeMap_attached \<in> {TreeMap_attached, Tooltip_attached, Calendar_attached}" by simp
  from attached_constructs_once[OF m' b, where e = "NotAnEvent ''explode'' (Some ''kendoTooltip'')"]
  have 2: "widgets ex_world = []"
    by (simp add: ex_world_fields)
  from 1 2 show ?thesis by (simp add: r b)
qed


text \<open>
  Claim C6 as stated fails for \<open>AuToolbar\<close>: attached without a widget handle, it
  constructs nothing.
\<close>

theorem attached_constructs_once_counterexample:
  "component ex_toolbar = None \<and>
   AuToolbar_attached ex_toolbar ex_world = (Inr ex_toolbar, ex_world) \<and>
   length (widgets (snd (AuToolbar_attached ex_toolbar ex_world))) \<noteq>
     Suc (length (widgets ex_world))"
  by (simp add: AuToolbar_attached_def ex_toolbar_def)


section \<open>Detaching an adapter\<close>

lemma widget_destroy_count:
  "wid < length (widgets w) \<Longrightarrow>
   destroy_calls (widgets (widget_destroy wid w) ! wid) = Suc (destroy_calls (widgets w ! wid))"
  by (simp add: widget_destroy_def)

lemma widget_destroy_frame:
  "length (widgets (widget_destroy wid w)) = length (widgets w)"
  "j \<noteq> wid \<Longrightarrow> widgets (widget_destroy wid w) ! j = widgets w ! j"
  "heap (widget_destroy wid w) = heap w"
  by (simp_all add: widget_destroy_def)


text \<open>
  Claim C7, as amended. For \<open>TreeMap\<close>, \<open>Tooltip\<close> and \<open>Calendar\<close>, \<open>detached\<close> after
  an \<open>attached\<close> that returned makes exactly one \<open>destroy()\<close> call, on the widget that
  the attach constructed, and touches no other widget. \<open>WidgetBase.destroy\<close> has no
  guard: every call on a handle is one more \<open>destroy()\<close> call on that widget, so a
  second call destroys a second time. \<open>AuToolbar.detached\<close> makes one \<open>destroy()\<close> call
  when its component handle is set and none when it is not.
\<close>

theorem detached_destroys_once:
  assumes "(attached, detached) \<in>
             {(TreeMap_attached, TreeMap_detached), (Tooltip_attached, Tooltip_detached),
              (Calendar_attached, Calendar_detached)}"
    and "attached u a w = (Inr a', w')"
  shows "(\<exists>w''. detached a' w' = (Inr a', w'') \<and>
            length (widgets w'') = Suc (length (widgets w)) \<and>
            destroy_calls (widgets w'' ! length (widgets w)) = 1 \<and>
            (\<forall>j < length (widgets w). widgets w'' ! j = widgets w ! j) \<and>
            heap w'' = heap w') \<and>
         destroy (Some wid) w0 = (Inr (), widget_destroy wid w0) \<and>
         (wid < length (widgets w0) \<longrightarrow>
            destroy_calls (widgets (snd (destroy (Some wid) w0)) ! wid) =
              Suc (destroy_calls (widgets w0 ! wid)) \<and>
            destroy_calls (widgets (snd (destroy (Some wid) (snd (destroy (Some wid) w0)))) ! wid) =
              Suc (Suc (destroy_calls (widgets w0 ! wid)))) \<and>
         (component t = None \<longrightarrow> AuToolbar_detached t w0 = (Inr t, w0)) \<and>
         (component t = Some wid \<longrightarrow> AuToolbar_detached t w0 = (Inr t, widget_destroy wid w0))"
proof -
  from assms have r: "adapter_recreate u a w = (Inr a', w')"
    and d: "detached = adapter_detached"
    by (auto simp: attached_defs detached_defs)
  from adapter_recreate_Inr[OF r] obtain m wd where
    a': "a' = a\<lparr>kWidget := Some (length (widgets w))\<rparr>"
    and w': "w' = w\<lparr>heap := heap w @ [m], widgets := widgets w @ [wd]\<rparr>"
    and dc: "destroy_calls wd = 0"
    by auto
  have 1: "\<exists>w''. detached a' w' = (Inr a', w'') \<and>
            length (widgets w'') = Suc (length (widgets w)) \<and>
            destroy_calls (widgets w'' ! length (widgets w)) = 1 \<and>
            (\<forall>j < length (widgets w). widgets w'' ! j = widgets w ! j) \<and>
            heap w'' = heap w'"
    by (simp add: d adapter_detached_def destroy_def a' w' dc widget_destroy_def nth_append)
  have 2: "destroy (Some wid) w0 = (Inr (), widget_destroy wid w0)"
    by (simp add: destroy_def)
  have 3: "wid < length (widgets w0) \<longrightarrow>
            destroy_calls (widgets (snd (destroy (Some wid) w0)) ! wid) =
              Suc (destroy_calls (widgets w0 ! wid)) \<and>
            destroy_calls (widgets (snd (destroy (Some wid) (snd (destroy (Some wid) w0)))) ! wid) =
              Suc (Suc (destroy_calls (widgets w0 ! wid)))"
    by (simp add: destroy_def widget_destroy_count widget_destroy_frame)
  have 4: "(component t = None \<longrightarrow> AuToolbar_detached t w0 = (Inr t, w0)) \<and>
         (component t = Some wid \<longrightarrow> AuToolbar_detached t w0 = (Inr t, widget_destroy wid w0))"
    by (simp add: AuToolbar_detached_def)
  from 1 2 3 4 show ?thesis by blast
qed


text \<open>
  The tooltip attached and detached: one \<open>destroy()\<close> call; a further
  \<open>WidgetBase.destroy\<close> on the same handle is a second one.
\<close>

theorem detached_destroys_once_witness:
  "fst (Tooltip_attached ex_util ex_adapter ex_world) = Inr (ex_adapter\<lparr>kWidget := Some 0\<rparr>) \<and>
   fst (Tooltip_detached (ex_adapter\<lparr>kWidget := Some 0\<rparr>)
          (snd (Tooltip_attached ex_util ex_adapter ex_world)))
     = Inr (ex_adapter\<lparr>kWidget := Some 0\<rparr>) \<and>
   destroy_calls (widgets (snd (Tooltip_detached (ex_adapter\<lparr>kWidget := Some 0\<rparr>)
          (snd (Tooltip_attached ex_util ex_adapter ex_world)))) ! 0) = 1 \<and>
   destroy_calls (widgets (snd (destroy (Some 0) (snd (Tooltip_detached
          (ex_adapter\<lparr>kWidget := Some 0\<rparr>)
          (snd (Tooltip_attached ex_util ex_adapter ex_world)))))) ! 0) = 2 \<and>
   AuToolbar_detached ex_toolbar ex_world = (Inr ex_toolbar, ex_world) \<and>
   AuToolbar_detached (ex_toolbar\<lparr>component := Some 0\<rparr>) ex_world
     = (Inr (ex_toolbar\<lparr>component := Some 0\<rparr>), widget_destroy 0 ex_world)"
proof -
  from ex_attached obtain w' where
    r: "Tooltip_attached ex_util ex_adapter ex_world = (Inr (ex_adapter\<lparr>kWidget := Some 0\<rparr>), w')"
    by (auto simp: attached_defs)
  have m: "(Tooltip_attached, Tooltip_detached) \<in>
             {(TreeMap_attached, TreeMap_detached), (Tooltip_attached, Tooltip_detached),
              (Calendar_attached, Calendar_detached)}" by simp
  from detached_destroys_once[OF m r, where wid = 0 and ?w0.0 = ex_world and t = ex_toolbar]
  obtain w'' where
    d: "Tooltip_detached (ex_adapter\<lparr>kWidget := Some 0\<rparr>) w' =
          (Inr (ex_adapter\<lparr>kWidget := Some 0\<rparr>), w'')"
    and l: "length (widgets w'') = 1" and c: "destroy_calls (widgets w'' ! 0) = 1"
    by (auto simp: ex_world_fields)
  from l have "0 < length (widgets w'')" by simp
  with detached_destroys_once[OF m r, where wid = 0 and ?w0.0 = w'' and t = ex_toolbar]
  have "destroy_calls (widgets (snd (destroy (Some 0) w'')) ! 0) =
      Suc (destroy_calls (widgets w'' ! 0))"
    by blast
  with c have 1: "destroy_calls (widgets (snd (destroy (Some 0) w'')) ! 0) = 2" by simp
  from detached_destroys_once[OF m r, where wid = 0 and ?w0.0 = ex_world and t = ex_toolbar]
  have 2: "AuToolbar_detached ex_toolbar ex_world = (Inr ex_toolbar, ex_world)"
    by (simp add: ex_toolbar_def)
  from detached_destroys_once[OF m r, where wid = 0 and ?w0.0 = ex_world
      and t = "ex_toolbar\<lparr>component := Some 0\<rparr>"]
  have 3: "AuToolbar_detached (ex_toolbar\<lparr>component := Some 0\<rparr>) ex_world
     = (Inr (ex_toolbar\<lparr>component := Some 0\<rparr>), widget_destroy 0 ex_world)"
    by simp
  from c 1 2 3 show ?thesis by (simp add: r d)
qed


text \<open>
  Claim C7 as stated fails for \<open>AuToolbar\<close>: its attach succeeds, and the detach that
  follows makes no destruction call.
\<close>

theorem detached_destroys_once_counterexample:
  "fst (AuToolbar_attached ex_toolbar ex_world) = Inr ex_toolbar \<and>
   AuToolbar_detached ex_toolbar (snd (AuToolbar_attached ex_toolbar ex_world))
     = (Inr ex_toolbar, ex_world) \<and>
   widgets ex_world = []"
  by (simp add: AuToolbar_attached_def AuToolbar_detached_def ex_toolbar_def ex_world_fields)


text \<open>
  Claim C9. Without a prior attach, \<open>AuToolbar.detached\<close> finds its handle unset and
  does nothing, while \<open>Tooltip.detached\<close>, \<open>TreeMap.detached\<close> and
  \<open>Calendar.detached\<close> pass the unset handle to \<open>WidgetBase.destroy\<close>, whose
  \<open>widget.destroy()\<close> on \<open>undefined\<close> throws a \<open>TypeError\<close>.
\<close>

theorem detach_without_attach:
  "(component t = None \<longrightarrow> AuToolbar_detached t w = (Inr t, w)) \<and>
   (kWidget a = None \<longrightarrow>
      Tooltip_detached a w = (Inl TypeError, w) \<and>
      TreeMap_detached a w = (Inl TypeError, w) \<and>
      Calendar_detached a w = (Inl TypeError, w) \<and>
      destroy (kWidget a) w = (Inl TypeError, w))"
  by (simp add: AuToolbar_detached_def detached_defs adapter_detached_def destroy_def)


theorem detach_without_attach_witness:
  "component ex_toolbar = None \<and> kWidget ex_adapter = None \<and>
   AuToolbar_detached ex_toolbar ex_world = (Inr ex_toolbar, ex_world) \<and>
   Tooltip_detached ex_adapter ex_world = (Inl TypeError, ex_world) \<and>
   TreeMap_detached ex_adapter ex_world = (Inl TypeError, ex_world) \<and>
   Calendar_detached ex_adapter ex_world = (Inl TypeError, ex_world)"
  using detach_without_attach[of ex_toolbar ex_world ex_adapter]
  by (simp add: ex_toolbar_def ex_adapter_fields)


section \<open>Changes of bound properties\<close>







section \<open>Event proxies\<close>

lemma run_task_queue: "microTaskQueue (run_task t w) = microTaskQueue w"
  by (cases t) (simp_all add: fireKendoEvent_def)

lemma run_tasks_queue:
  "microTaskQueue (foldl (\<lambda>w' t. run_task t w') w ts) = microTaskQueue w"
  by (induction ts arbitrary: w) (simp_all add: run_task_queue)

lemma flush_queued:
  "flushMicroTaskQueue (queueMicroTask t w) = run_task t (flushMicroTaskQueue w)"
  by (simp add: flushMicroTaskQueue_def queueMicroTask_def)

lemma flush_empties: "microTaskQueue (flushMicroTaskQueue w) = []"
  by (simp add: flushMicroTaskQueue_def run_tasks_queue)

lemma hyphenate_dataBound: "hyphenate ''dataBound'' = ''data-bound''"
  by code_simp


text \<open>
  Claim C4. Every handler that \<open>getEventOptions\<close> registers for an event is the proxy
  of that event. Invoked by the native widget, it dispatches nothing itself: it appends
  one micro task to the task queue. When the queue is flushed, everything that was
  pending before runs first, and then exactly one DOM event is dispatched on the host
  element, named by the hyphenated native name (\<open>data-bound\<close> for \<open>dataBound\<close>) and
  carrying the native event.
\<close>

theorem proxy_defers_dispatch:
  assumes "getEventOptions u this el = Inr options"
    and "options event = Some handler"
  shows "handler = Proxy el event \<and>
         call_handler handler e w =
           (Inr (), w\<lparr>microTaskQueue := microTaskQueue w @ [FireKendoEvent el event e]\<rparr>) \<and>
         trace (snd (call_handler handler e w)) = trace w \<and>
         trace (flushMicroTaskQueue (snd (call_handler handler e w))) =
           trace (flushMicroTaskQueue w) @ [DomEvent el (hyphenate event) e] \<and>
         microTaskQueue (flushMicroTaskQueue (snd (call_handler handler e w))) = [] \<and>
         hyphenate ''dataBound'' = ''data-bound''"
proof -
  from assms(1) have "options =
      (\<lambda>k. if k \<in> set (getEventsFromAttributes u el) then Some (Proxy el k) else None)"
    unfolding getEventOptions_def by (rule register_events_Inr)
  with assms(2) have h: "handler = Proxy el event"
    by (auto split: if_splits)
  have c: "call_handler handler e w =
      (Inr (), w\<lparr>microTaskQueue := microTaskQueue w @ [FireKendoEvent el event e]\<rparr>)"
    by (simp add: h queueMicroTask_def)
  have q: "snd (call_handler handler e w) = queueMicroTask (FireKendoEvent el event e) w"
    by (simp add: h)
  have t: "trace (snd (call_handler handler e w)) = trace w"
    by (simp add: q queueMicroTask_def)
  have f: "trace (flushMicroTaskQueue (snd (call_handler handler e w))) =
      trace (flushMicroTaskQueue w) @ [DomEvent el (hyphenate event) e]"
    by (simp add: q flush_queued fireKendoEvent_def)
  have m: "microTaskQueue (flushMicroTaskQueue (snd (call_handler handler e w))) = []"
    by (rule flush_empties)
  from h c t f m hyphenate_dataBound show ?thesis by blast
qed


text \<open>
  The \<open>show\<close> proxy of the tooltip, invoked while a task is pending: nothing is
  dispatched at once, and the flush runs the pending task before the DOM event.
\<close>

theorem proxy_defers_dispatch_witness:
  "(\<exists>options. getEventOptions ex_util ex_base ex_element = Inr options \<and>
      options ''show'' = Some (Proxy ex_element ''show'')) \<and>
   microTaskQueue ex_world = [OtherTask 7] \<and>
   trace (snd (call_handler (Proxy ex_element ''show'') (Str ''evt'') ex_world)) = [] \<and>
   microTaskQueue (snd (call_handler (Proxy ex_element ''show'') (Str ''evt'') ex_world))
     = [OtherTask 7, FireKendoEvent ex_element ''show'' (Str ''evt'')] \<and>
   trace (flushMicroTaskQueue
            (snd (call_handler (Proxy ex_element ''show'') (Str ''evt'') ex_world)))
     = [TaskRan 7, DomEvent ex_element ''show'' (Str ''evt'')]"
proof -
  let ?options = "\<lambda>k. if k \<in> set [''show''] then Some (Proxy ex_element k) else None"
  have s: "?options ''show'' = Some (Proxy ex_element ''show'')" by simp
  have f: "trace (flushMicroTaskQueue ex_world) = [TaskRan 7]"
    by (simp add: flushMicroTaskQueue_def ex_world_fields)
  have hy: "hyphenate ''show'' = ''show''" by code_simp
  from proxy_defers_dispatch[OF ex_event_options s, of "Str ''evt''" ex_world]
  have c: "call_handler (Proxy ex_element ''show'') (Str ''evt'') ex_world =
      (Inr (), ex_world\<lparr>microTaskQueue :=
         microTaskQueue ex_world @ [FireKendoEvent ex_element ''show'' (Str ''evt'')]\<rparr>)"
    and t: "trace (snd (call_handler (Proxy ex_element ''show'') (Str ''evt'') ex_world)) =
      trace ex_world"
    and fl: "trace (flushMicroTaskQueue
        (snd (call_handler (Proxy ex_element ''show'') (Str ''evt'') ex_world))) =
      trace (flushMicroTaskQueue ex_world) @
        [DomEvent ex_element (hyphenate ''show'') (Str ''evt'')]"
    by blast+
  have 1: "trace (snd (call_handler (Proxy ex_element ''show'') (Str ''evt'') ex_world)) = []"
    by (simp only: t ex_world_fields)
  have 2: "microTaskQueue (snd (call_handler (Proxy ex_element ''show'') (Str ''evt'') ex_world))
     = [OtherTask 7, FireKendoEvent ex_element ''show'' (Str ''evt'')]"
    by (simp add: queueMicroTask_def ex_world_fields)
  have 3: "trace (flushMicroTaskQueue
            (snd (call_handler (Proxy ex_element ''show'') (Str ''evt'') ex_world)))
     = [TaskRan 7, DomEvent ex_element ''show'' (Str ''evt'')]"
    by (simp only: fl f hy append.simps)
  have 0: "\<exists>options. getEventOptions ex_util ex_base ex_element = Inr options \<and>
      options ''show'' = Some (Proxy ex_element ''show'')"
    using ex_event_options s by blast
  from 0 1 2 3 ex_world_fields(3) show ?thesis by blast
qed

end
